theory Spec2Isabelle
  imports Complex_Main "HOL-Library.Char_ord" "HOL-Library.List_Lexorder" "HOL-Library.Multiset"
    "HOL-Library.Product_Lexorder"
begin

section \<open>Values\<close>

text \<open>
  A Python \<^verbatim>\<open>float\<close>. A finite value is the real number it denotes; the two infinities
  and NaN are kept, because \<^verbatim>\<open>float(text)\<close> produces them for texts such as \<^verbatim>\<open>inf\<close> and
  \<^verbatim>\<open>nan\<close> and the comparison \<^verbatim>\<open>amount <= 0\<close> treats them differently. The modelled code
  compares and stores amounts; no arithmetic on them is modelled.
\<close>

datatype pyfloat = Fin real | PInf | NInf | NaN

text \<open>Python's \<^verbatim>\<open>x <= 0\<close> and \<^verbatim>\<open>x > 0\<close> on a float; both are false on NaN.\<close>

fun le_zero :: "pyfloat \<Rightarrow> bool" where
  "le_zero (Fin r) = (r \<le> 0)"
| "le_zero PInf = False"
| "le_zero NInf = True"
| "le_zero NaN = False"

fun gt_zero :: "pyfloat \<Rightarrow> bool" where
  "gt_zero (Fin r) = (0 < r)"
| "gt_zero PInf = True"
| "gt_zero NInf = False"
| "gt_zero NaN = False"

text \<open>
  Python integers are unbounded, an \<^verbatim>\<open>INTEGER\<close> of the engine has 64 bits: binding an
  integer outside that range as a parameter of a statement raises \<^verbatim>\<open>OverflowError\<close>
  before the statement runs.
\<close>

definition int64 :: "int \<Rightarrow> bool" where
  "int64 i \<longleftrightarrow> - (2 ^ 63) \<le> i \<and> i < 2 ^ 63"

text \<open>The exceptions that the modelled code can raise.\<close>

datatype error = IntegrityError | OperationalError | OverflowError | TypeError

section \<open>Ledger store (database.py)\<close>

text \<open>
  The tables \<^verbatim>\<open>categories\<close> and \<^verbatim>\<open>expenses\<close> of \<^verbatim>\<open>_create_tables\<close>. Rows are kept in
  rowid order. \<^verbatim>\<open>expenses.id\<close> is \<^verbatim>\<open>INTEGER PRIMARY KEY AUTOINCREMENT\<close>: the engine takes
  one more than the largest rowid ever used, which it remembers in \<^verbatim>\<open>sqlite_sequence\<close>
  (field \<open>expenses_seq\<close>). The column \<^verbatim>\<open>created_at\<close> is never read and is left out, as is the
  table \<^verbatim>\<open>users\<close>.
\<close>

record category =
  cat_id :: int
  cat_name :: string
  cat_icon :: string

text \<open>
  The column \<^verbatim>\<open>date\<close> is declared \<^verbatim>\<open>TIMESTAMP\<close>, which gives it numeric affinity: a text
  that reads as a number is stored as that number, any other text as it is. \<open>numeric\<close> is
  the engine's reading of a text as a number, a parameter; \<open>None\<close> is a text that is no
  number, such as a date in the format \<^verbatim>\<open>%Y-%m-%d %H:%M:%S\<close>. In the order of the engine
  every number comes before every text; \<open>date_key\<close> maps a stored date into that order.
\<close>

datatype sql_date = NumDate real | TextDate string

definition store_date :: "(string \<Rightarrow> real option) \<Rightarrow> string \<Rightarrow> sql_date" where
  "store_date numeric t = (case numeric t of Some x \<Rightarrow> NumDate x | None \<Rightarrow> TextDate t)"

fun date_key :: "sql_date \<Rightarrow> nat \<times> real \<times> string" where
  "date_key (NumDate x) = (0, x, [])"
| "date_key (TextDate t) = (1, 0, t)"

record expense =
  exp_id :: nat
  exp_user_id :: int
  exp_amount :: pyfloat
  exp_category_id :: int
  exp_description :: "string option"
  exp_date :: sql_date

record database =
  categories :: "category list"
  expenses :: "expense list"
  expenses_seq :: nat

text \<open>
  Binding a Python value to a \<^verbatim>\<open>REAL\<close> parameter: \<^verbatim>\<open>None\<close> is bound as NULL, and the
  engine stores a NaN as NULL as well.
\<close>

fun bind_real :: "pyfloat option \<Rightarrow> pyfloat option" where
  "bind_real None = None"
| "bind_real (Some NaN) = None"
| "bind_real (Some a) = Some a"

definition next_rowid :: "database \<Rightarrow> nat" where
  "next_rowid d = Suc (fold max (map exp_id (expenses d)) (expenses_seq d))"

text \<open>
  \<^verbatim>\<open>Database.add_expense\<close>. The function makes no check of its own: it inserts the row
  and returns \<^verbatim>\<open>cursor.lastrowid\<close>. What can fail is the engine: for a reason outside the
  program (locked or unwritable file), which is the input \<open>fault\<close> (\<open>OperationalError\<close>);
  while the parameters are bound, when the user id or the category id is outside 64 bits
  (\<open>OverflowError\<close>); and in the \<^verbatim>\<open>INSERT\<close>, since the columns \<^verbatim>\<open>amount\<close> and
  \<^verbatim>\<open>category_id\<close> are \<^verbatim>\<open>NOT NULL\<close> (\<open>IntegrityError\<close>). Foreign keys are not enforced: the
  connection never switches them on. \<open>now\<close> is \<^verbatim>\<open>datetime.datetime.now()\<close> in the format
  \<^verbatim>\<open>%Y-%m-%d %H:%M:%S\<close>. An exception leaves the store as it was.
\<close>

definition add_expense ::
  "(string \<Rightarrow> real option) \<Rightarrow> bool \<Rightarrow> string \<Rightarrow> int \<Rightarrow> pyfloat option \<Rightarrow> int option
     \<Rightarrow> string option \<Rightarrow> string option \<Rightarrow> database \<Rightarrow> error + (nat \<times> database)" where
  "add_expense numeric fault now user_id amount category_id description date d =
     (let date' = (case date of None \<Rightarrow> now | Some t \<Rightarrow> t) in
      if fault then Inl OperationalError
      else if \<not> int64 user_id \<or> (case category_id of None \<Rightarrow> False | Some c \<Rightarrow> \<not> int64 c)
        then Inl OverflowError
      else case bind_real amount of
        None \<Rightarrow> Inl IntegrityError
      | Some a \<Rightarrow>
          (case category_id of
             None \<Rightarrow> Inl IntegrityError
           | Some c \<Rightarrow>
               (let expense_id = next_rowid d;
                    row = \<lparr>exp_id = expense_id, exp_user_id = user_id, exp_amount = a,
                           exp_category_id = c, exp_description = description,
                           exp_date = store_date numeric date'\<rparr>
                in Inr (expense_id,
                        d\<lparr>expenses := expenses d @ [row], expenses_seq := expense_id\<rparr>))))"

text \<open>\<^verbatim>\<open>Database.get_categories\<close>: all categories, \<^verbatim>\<open>ORDER BY name\<close>.\<close>

definition get_categories :: "database \<Rightarrow> category list" where
  "get_categories d = sort_key cat_name (categories d)"

text \<open>
  \<^verbatim>\<open>Database.get_category\<close>: \<^verbatim>\<open>WHERE id = ?\<close> and \<^verbatim>\<open>fetchone\<close>. With \<^verbatim>\<open>None\<close> as the id
  the comparison is with NULL and selects nothing; an id outside 64 bits cannot be bound
  and the call raises \<open>OverflowError\<close>.
\<close>

definition get_category :: "int option \<Rightarrow> database \<Rightarrow> error + category option" where
  "get_category category_id d =
     (case category_id of
        None \<Rightarrow> Inr None
      | Some c \<Rightarrow>
          if int64 c then Inr (find (\<lambda>r. cat_id r = c) (categories d))
          else Inl OverflowError)"

subsection \<open>The listing of recent expenses\<close>




text \<open>A row of \<^verbatim>\<open>get_user_expenses\<close>: the expense with the name and icon of its category.\<close>

record expense_row =
  row_id :: nat
  row_amount :: pyfloat
  row_date :: sql_date
  row_description :: "string option"
  row_category_name :: string
  row_category_icon :: string

definition joined :: "expense \<Rightarrow> category \<Rightarrow> expense_row" where
  "joined e c = \<lparr>row_id = exp_id e, row_amount = exp_amount e, row_date = exp_date e,
     row_description = exp_description e, row_category_name = cat_name c,
     row_category_icon = cat_icon c\<rparr>"




section \<open>Conversation state (states.py and the FSM context)\<close>

text \<open>The states of \<^verbatim>\<open>ExpenseStates\<close>; no state is \<open>None\<close>.\<close>

datatype expense_state =
  waiting_for_category | waiting_for_amount | waiting_for_description | confirming_expense

text \<open>
  The data dictionary of a context. Its only keys are \<^verbatim>\<open>selected_category_id\<close>,
  \<^verbatim>\<open>amount\<close> and \<^verbatim>\<open>description\<close>; \<open>None\<close> is a missing key. \<^verbatim>\<open>description\<close> can be
  present with the value \<^verbatim>\<open>None\<close>, hence the second option.
\<close>

record fsm_data =
  selected_category_id :: "int option"
  data_amount :: "pyfloat option"
  data_description :: "string option option"

record fsm_context =
  ctx_state :: "expense_state option"
  ctx_data :: fsm_data

definition empty_data :: fsm_data where
  "empty_data = \<lparr>selected_category_id = None, data_amount = None, data_description = None\<rparr>"

text \<open>\<^verbatim>\<open>state.set_state\<close> and \<^verbatim>\<open>state.clear\<close> (state \<^verbatim>\<open>None\<close>, data \<^verbatim>\<open>{}\<close>).\<close>

definition set_state :: "expense_state \<Rightarrow> fsm_context \<Rightarrow> fsm_context" where
  "set_state st c = c\<lparr>ctx_state := Some st\<rparr>"

definition clear :: "fsm_context \<Rightarrow> fsm_context" where
  "clear c = \<lparr>ctx_state = None, ctx_data = empty_data\<rparr>"

text \<open>\<^verbatim>\<open>user_data.get("description")\<close>: \<^verbatim>\<open>None\<close> for a missing key too.\<close>

definition get_description :: "fsm_data \<Rightarrow> string option" where
  "get_description dt = (case data_description dt of None \<Rightarrow> None | Some v \<Rightarrow> v)"

text \<open>
  The whole mutable state. \<^verbatim>\<open>Dispatcher()\<close> keeps the contexts in memory, one for each
  pair of a chat and a user: a conversation is that pair (chat id, user id). In a private
  chat the two ids are equal.
\<close>

type_synonym conversation = "int \<times> int"

record sys =
  fsm :: "conversation \<Rightarrow> fsm_context"
  db :: database

definition init_sys :: "database \<Rightarrow> sys" where
  "init_sys d = \<lparr>fsm = (\<lambda>k. \<lparr>ctx_state = None, ctx_data = empty_data\<rparr>), db = d\<rparr>"

definition upd_ctx :: "conversation \<Rightarrow> (fsm_context \<Rightarrow> fsm_context) \<Rightarrow> sys \<Rightarrow> sys" where
  "upd_ctx k f s = s\<lparr>fsm := (fsm s)(k := f (fsm s k))\<rparr>"

section \<open>Handlers (main.py)\<close>

text \<open>
  What a handler sends. Texts are not rendered; a reply carries the values its text is
  built from. A truthiness test on the description (\<^verbatim>\<open>if description:\<close>) shows neither
  \<^verbatim>\<open>None\<close> nor the empty string.
\<close>

datatype reply =
    CallbackAnswer
  | CategoryPrompt "category list"
  | AmountPrompt
  | AddCancelled
  | AmountNotPositive
  | AmountInvalid
  | DescriptionPrompt
  | CategoryNotFound
  | ConfirmPrompt category pyfloat "string option"
  | ExpenseSaved pyfloat "string option"
  | SaveFailed
  | ConfirmCancelled

definition shown :: "string option \<Rightarrow> string option" where
  "shown description = (case description of None \<Rightarrow> None | Some t \<Rightarrow> if t = [] then None else Some t)"

text \<open>
  A handler returns how it ended, what it sent, and the state it leaves. An exception
  ends the handler where it is raised; what the handler did before stays done.
\<close>

datatype outcome = Completed | Raised error

type_synonym result = "outcome \<times> reply list \<times> sys"

definition cmd_add_expense :: "conversation \<Rightarrow> sys \<Rightarrow> result" where
  "cmd_add_expense k s =
     (let categories = get_categories (db s);
          s1 = upd_ctx k (set_state waiting_for_category) s
      in (Completed, [CategoryPrompt categories], s1))"

definition process_category_selection :: "conversation \<Rightarrow> int \<Rightarrow> sys \<Rightarrow> result" where
  "process_category_selection k category_id s =
     (let s1 = upd_ctx k (\<lambda>c. c\<lparr>ctx_data := (ctx_data c)\<lparr>selected_category_id := Some category_id\<rparr>\<rparr>) s;
          s2 = upd_ctx k (set_state waiting_for_amount) s1
      in (Completed, [CallbackAnswer, AmountPrompt], s2))"

definition cancel_add_expense_operation :: "conversation \<Rightarrow> sys \<Rightarrow> result" where
  "cancel_add_expense_operation k s = (Completed, [CallbackAnswer, AddCancelled], s)"

text \<open>
  \<open>float\<close> is Python's \<^verbatim>\<open>float(text)\<close>, a parameter: \<open>None\<close> is \<^verbatim>\<open>ValueError\<close>. A message
  without text (\<^verbatim>\<open>message.text\<close> is \<^verbatim>\<open>None\<close>) makes it raise \<^verbatim>\<open>TypeError\<close>, which the
  handler does not catch.
\<close>

definition process_amount_input ::
  "(string \<Rightarrow> pyfloat option) \<Rightarrow> conversation \<Rightarrow> string option \<Rightarrow> sys \<Rightarrow> result" where
  "process_amount_input float k amount_text s =
     (case amount_text of
        None \<Rightarrow> (Raised TypeError, [], s)
      | Some t \<Rightarrow>
          (case float t of
             None \<Rightarrow> (Completed, [AmountInvalid], s)
           | Some amount \<Rightarrow>
               if le_zero amount then (Completed, [AmountNotPositive], s)
               else
                 (let s1 = upd_ctx k (\<lambda>c. c\<lparr>ctx_data := (ctx_data c)\<lparr>data_amount := Some amount\<rparr>\<rparr>) s;
                      s2 = upd_ctx k (set_state waiting_for_description) s1
                  in (Completed, [DescriptionPrompt], s2))))"

text \<open>
  The description is stored before the category is looked up, so an exception of
  \<^verbatim>\<open>get_category\<close> leaves it stored and the state as it was. The summary formats the
  amount with \<^verbatim>\<open>:.2f\<close>, which raises \<^verbatim>\<open>TypeError\<close> on \<^verbatim>\<open>None\<close>; the state is already
  \<^verbatim>\<open>confirming_expense\<close> then.
\<close>

definition process_description_input :: "conversation \<Rightarrow> string option \<Rightarrow> sys \<Rightarrow> result" where
  "process_description_input k description_text s =
     (let description = (if description_text = Some ''-'' then None else description_text);
          s1 = upd_ctx k (\<lambda>c. c\<lparr>ctx_data := (ctx_data c)\<lparr>data_description := Some description\<rparr>\<rparr>) s;
          user_data = ctx_data (fsm s1 k);
          category_id = selected_category_id user_data;
          amount = data_amount user_data
      in case get_category category_id (db s1) of
           Inl e \<Rightarrow> (Raised e, [], s1)
         | Inr None \<Rightarrow> (Completed, [CategoryNotFound], upd_ctx k clear s1)
         | Inr (Some category) \<Rightarrow>
             (let s2 = upd_ctx k (set_state confirming_expense) s1
              in case amount of
                   None \<Rightarrow> (Raised TypeError, [], s2)
                 | Some a \<Rightarrow> (Completed, [ConfirmPrompt category a (shown description)], s2)))"

text \<open>
  \<^verbatim>\<open>confirm_expense_handler\<close>. The user id is \<^verbatim>\<open>callback.from_user.id\<close>. An exception of
  \<^verbatim>\<open>add_expense\<close> is not caught: the handler ends there, before \<^verbatim>\<open>state.clear()\<close>. The
  branch for a falsy \<^verbatim>\<open>expense_id\<close> is kept as written.
\<close>

definition confirm_expense_handler ::
  "(string \<Rightarrow> real option) \<Rightarrow> bool \<Rightarrow> string \<Rightarrow> conversation \<Rightarrow> sys \<Rightarrow> result" where
  "confirm_expense_handler numeric fault now k s =
     (let user_data = ctx_data (fsm s k);
          category_id = selected_category_id user_data;
          amount = data_amount user_data;
          description = get_description user_data;
          user_id = snd k
      in case add_expense numeric fault now user_id amount category_id description None (db s) of
           Inl e \<Rightarrow> (Raised e, [CallbackAnswer], s)
         | Inr (expense_id, d1) \<Rightarrow>
             (let s1 = s\<lparr>db := d1\<rparr>
              in if expense_id \<noteq> 0
                 then (case amount of
                         None \<Rightarrow> (Raised TypeError, [CallbackAnswer], s1)
                       | Some a \<Rightarrow>
                           (Completed, [CallbackAnswer, ExpenseSaved a (shown description)],
                            upd_ctx k clear s1))
                 else (Completed, [CallbackAnswer, SaveFailed], upd_ctx k clear s1)))"

definition cancel_confirm_expense_handler :: "conversation \<Rightarrow> sys \<Rightarrow> result" where
  "cancel_confirm_expense_handler k s =
     (Completed, [CallbackAnswer, ConfirmCancelled], upd_ctx k clear s)"

section \<open>Routing\<close>

text \<open>
  The inbound actions of the add-expense flow. \<open>CategorySelected\<close> carries the number
  of the token \<^verbatim>\<open>select_category:<id>\<close>; \<open>FreeText\<close> is a message that is no command.
  The commands \<^verbatim>\<open>/start\<close>, \<^verbatim>\<open>/help\<close>, \<^verbatim>\<open>/recent\<close> and \<^verbatim>\<open>/stats\<close> touch neither a context
  nor the expenses and are left out.
\<close>

datatype action =
    AddCommand
  | CategorySelected int
  | CancelAddExpense
  | FreeText "string option"
  | ConfirmExpense
  | CancelConfirmExpense

text \<open>
  An event is an action of one user in one chat together with what the environment
  contributes while it is handled: the clock, and whether the store fails on a write.
\<close>

record event =
  ev_chat :: int
  ev_user :: int
  ev_action :: action
  ev_now :: string
  ev_fault :: bool

text \<open>
  The filters of the handlers' decorators. The callback handlers and \<^verbatim>\<open>/add\<close> have no
  state filter and run in every state; the two message handlers run in their own state
  only, and a message that matches no handler changes nothing.
\<close>

definition dispatch ::
  "(string \<Rightarrow> real option) \<Rightarrow> (string \<Rightarrow> pyfloat option) \<Rightarrow> event \<Rightarrow> sys \<Rightarrow> result" where
  "dispatch numeric float ev s =
     (let k = (ev_chat ev, ev_user ev) in
      case ev_action ev of
        AddCommand \<Rightarrow> cmd_add_expense k s
      | CategorySelected category_id \<Rightarrow> process_category_selection k category_id s
      | CancelAddExpense \<Rightarrow> cancel_add_expense_operation k s
      | FreeText text \<Rightarrow>
          (if ctx_state (fsm s k) = Some waiting_for_amount
             then process_amount_input float k text s
           else if ctx_state (fsm s k) = Some waiting_for_description
             then process_description_input k text s
           else (Completed, [], s))
      | ConfirmExpense \<Rightarrow> confirm_expense_handler numeric (ev_fault ev) (ev_now ev) k s
      | CancelConfirmExpense \<Rightarrow> cancel_confirm_expense_handler k s)"

definition after :: "result \<Rightarrow> sys" where
  "after r = snd (snd r)"

fun run ::
  "(string \<Rightarrow> real option) \<Rightarrow> (string \<Rightarrow> pyfloat option) \<Rightarrow> event list \<Rightarrow> sys \<Rightarrow> sys" where
  "run numeric float [] s = s"
| "run numeric float (ev # evs) s = run numeric float evs (after (dispatch numeric float ev s))"

section \<open>Invariants of the flow\<close>

text \<open>
  A context whose state is \<open>None\<close> holds no data: the state only becomes \<open>None\<close> through
  \<^verbatim>\<open>state.clear()\<close>, which empties the data too.
\<close>

definition no_stale_data :: "sys \<Rightarrow> bool" where
  "no_stale_data s \<longleftrightarrow> (\<forall>k. ctx_state (fsm s k) = None \<longrightarrow> ctx_data (fsm s k) = empty_data)"

text \<open>
  An amount held by a context has passed the test of \<^verbatim>\<open>process_amount_input\<close>, and every
  expense row has a positive amount.
\<close>

definition amounts_checked :: "sys \<Rightarrow> bool" where
  "amounts_checked s \<longleftrightarrow>
     (\<forall>k a. data_amount (ctx_data (fsm s k)) = Some a \<longrightarrow> \<not> le_zero a)
     \<and> (\<forall>e \<in> set (expenses (db s)). gt_zero (exp_amount e))"

section \<open>Example inputs\<close>

text \<open>
  A store with two categories and no expense; stand-ins for \<^verbatim>\<open>float\<close>, which knows four
  texts, and for the engine's reading of numbers, which knows one; user 7 in the private
  chat with the bot, whose events all happen at one time without a store fault; a state in
  which only that conversation has a context; and the flow of the specification's
  end-to-end example.
\<close>

definition example_db :: database where
  "example_db =
     \<lparr>categories = [\<lparr>cat_id = 1, cat_name = ''Food'', cat_icon = ''F''\<rparr>,
                     \<lparr>cat_id = 2, cat_name = ''Transport'', cat_icon = ''T''\<rparr>],
      expenses = [], expenses_seq = 0\<rparr>"

definition example_float :: "string \<Rightarrow> pyfloat option" where
  "example_float t =
     (if t = ''12.50'' then Some (Fin 12.5)
      else if t = ''nan'' then Some NaN
      else if t = ''-3'' then Some (Fin (- 3))
      else None)"

definition example_numeric :: "string \<Rightarrow> real option" where
  "example_numeric t = (if t = ''2024'' then Some 2024 else None)"

definition press :: "int \<Rightarrow> action \<Rightarrow> event" where
  "press u a = \<lparr>ev_chat = u, ev_user = u, ev_action = a, ev_now = ''2024-01-01 10:00:00'',
     ev_fault = False\<rparr>"

definition example_sys :: "expense_state option \<Rightarrow> fsm_data \<Rightarrow> sys" where
  "example_sys st dt =
     \<lparr>fsm = (\<lambda>k. \<lparr>ctx_state = None, ctx_data = empty_data\<rparr>)
               ((7, 7) := \<lparr>ctx_state = st, ctx_data = dt\<rparr>),
      db = example_db\<rparr>"

definition example_flow :: "event list" where
  "example_flow = [press 7 AddCommand, press 7 (CategorySelected 1),
     press 7 (FreeText (Some ''12.50'')), press 7 (FreeText (Some ''-'')), press 7 ConfirmExpense]"




section \<open>Basic facts\<close>

lemmas handler_defs = dispatch_def after_def cmd_add_expense_def process_category_selection_def
  cancel_add_expense_operation_def process_amount_input_def process_description_input_def
  confirm_expense_handler_def cancel_confirm_expense_handler_def upd_ctx_def set_state_def clear_def

lemmas db_defs = add_expense_def next_rowid_def get_category_def get_description_def empty_data_def
  shown_def store_date_def int64_def

lemmas example_defs = example_db_def example_float_def example_numeric_def press_def init_sys_def

lemma ctx_updates [simp]:
  "c\<lparr>ctx_data := dt, ctx_state := st\<rparr> = \<lparr>ctx_state = st, ctx_data = dt\<rparr>"
  by (cases c) simp

lemma ctx_data_update:
  "ctx_state c = st \<Longrightarrow> c\<lparr>ctx_data := dt\<rparr> = \<lparr>ctx_state = st, ctx_data = dt\<rparr>"
  by (cases c) simp

lemma gt_zero_not_le_zero: "gt_zero a \<Longrightarrow> \<not> le_zero a"
  by (cases a) simp_all

lemma bind_real_gt_zero: "bind_real (Some a) = Some b \<Longrightarrow> \<not> le_zero a \<Longrightarrow> gt_zero b"
  by (cases a) auto

text \<open>
  \<^verbatim>\<open>add_expense\<close> never returns a falsy id, so the branch of \<^verbatim>\<open>confirm_expense_handler\<close> that
  reports a failed save is never taken: a failed write is an exception.
\<close>

lemma add_expense_lastrowid: "add_expense nm f n u a c ds dt d = Inr (i, d') \<Longrightarrow> i \<noteq> 0"
  by (auto simp: add_expense_def next_rowid_def Let_def split: if_splits option.splits)

lemma confirm_never_reports_failure:
  "SaveFailed \<notin> set (fst (snd (confirm_expense_handler nm f n k s)))"
  by (auto simp: confirm_expense_handler_def Let_def dest: add_expense_lastrowid
           split: sum.splits option.splits)

lemma dispatch_no_stale_data:
  "no_stale_data s \<Longrightarrow> no_stale_data (after (dispatch numeric float ev s))"
  by (cases "ev_action ev")
     (auto simp: no_stale_data_def handler_defs Let_def split: option.splits sum.splits if_splits)

lemma run_no_stale_data: "no_stale_data s \<Longrightarrow> no_stale_data (run numeric float evs s)"
  by (induction evs arbitrary: s) (simp_all add: dispatch_no_stale_data)

lemma init_no_stale_data: "no_stale_data (init_sys d)"
  by (simp add: no_stale_data_def init_sys_def)

lemma dispatch_amounts_checked:
  "amounts_checked s \<Longrightarrow> amounts_checked (after (dispatch numeric float ev s))"
  by (cases "ev_action ev")
     (auto simp: amounts_checked_def handler_defs add_expense_def empty_data_def Let_def
           split: option.splits sum.splits if_splits, (blast intro: bind_real_gt_zero)+)

lemma run_amounts_checked: "amounts_checked s \<Longrightarrow> amounts_checked (run numeric float evs s)"
  by (induction evs arbitrary: s) (simp_all add: dispatch_amounts_checked)

text \<open>The cancel button of the confirmation prompt clears the context in every state.\<close>

lemma cancel_confirm_clears:
  "dispatch numeric float
     \<lparr>ev_chat = chat, ev_user = u, ev_action = CancelConfirmExpense, ev_now = n, ev_fault = f\<rparr> s
     = (Completed, [CallbackAnswer, ConfirmCancelled],
        s\<lparr>fsm := (fsm s)((chat, u) := \<lparr>ctx_state = None, ctx_data = empty_data\<rparr>)\<rparr>)"
  by (simp add: handler_defs)

text \<open>\<^verbatim>\<open>/add\<close> sets the state and nothing else.\<close>

lemma add_command_sets_step:
  "dispatch numeric float
     \<lparr>ev_chat = chat, ev_user = u, ev_action = AddCommand, ev_now = n, ev_fault = f\<rparr> s
     = (Completed, [CategoryPrompt (get_categories (db s))],
        s\<lparr>fsm := (fsm s)((chat, u) := (fsm s (chat, u))\<lparr>ctx_state := Some waiting_for_category\<rparr>)\<rparr>)"
  by (simp add: handler_defs Let_def)

text \<open>
  The amount step on a positive number, on a text that \<^verbatim>\<open>float\<close> rejects, on a number that
  is zero or negative, and on NaN.
\<close>

lemma amount_step:
  assumes "ctx_state (fsm s (chat, u)) = Some waiting_for_amount"
  shows "(\<forall>a. float t = Some a \<and> gt_zero a \<longrightarrow>
            dispatch numeric float
              \<lparr>ev_chat = chat, ev_user = u, ev_action = FreeText (Some t), ev_now = n, ev_fault = f\<rparr> s
              = (Completed, [DescriptionPrompt],
                 s\<lparr>fsm := (fsm s)((chat, u) := \<lparr>ctx_state = Some waiting_for_description,
                      ctx_data = (ctx_data (fsm s (chat, u)))\<lparr>data_amount := Some a\<rparr>\<rparr>)\<rparr>))
       \<and> (float t = None \<longrightarrow>
            dispatch numeric float
              \<lparr>ev_chat = chat, ev_user = u, ev_action = FreeText (Some t), ev_now = n, ev_fault = f\<rparr> s
              = (Completed, [AmountInvalid], s))
       \<and> (\<forall>a. float t = Some a \<and> le_zero a \<longrightarrow>
            dispatch numeric float
              \<lparr>ev_chat = chat, ev_user = u, ev_action = FreeText (Some t), ev_now = n, ev_fault = f\<rparr> s
              = (Completed, [AmountNotPositive], s))"
  using assms by (auto simp: handler_defs Let_def dest: gt_zero_not_le_zero)

lemma nan_amount_is_stored:
  "ctx_state (fsm s (chat, u)) = Some waiting_for_amount \<Longrightarrow> float t = Some NaN \<Longrightarrow>
   dispatch numeric float
     \<lparr>ev_chat = chat, ev_user = u, ev_action = FreeText (Some t), ev_now = n, ev_fault = f\<rparr> s
     = (Completed, [DescriptionPrompt],
        s\<lparr>fsm := (fsm s)((chat, u) := \<lparr>ctx_state = Some waiting_for_description,
             ctx_data = (ctx_data (fsm s (chat, u)))\<lparr>data_amount := Some NaN\<rparr>\<rparr>)\<rparr>)"
  by (simp add: handler_defs Let_def)

text \<open>
  A stored category id outside 64 bits makes the lookup of the description step raise: the
  description is stored and the state stays as it was.
\<close>

lemma description_lookup_overflow:
  "ctx_state (fsm s (chat, u)) = Some waiting_for_description \<Longrightarrow>
   selected_category_id (ctx_data (fsm s (chat, u))) = Some c \<Longrightarrow> \<not> int64 c \<Longrightarrow>
   dispatch numeric float
     \<lparr>ev_chat = chat, ev_user = u, ev_action = FreeText (Some t), ev_now = n, ev_fault = f\<rparr> s
     = (Raised OverflowError, [],
        s\<lparr>fsm := (fsm s)((chat, u) := \<lparr>ctx_state = Some waiting_for_description,
             ctx_data = (ctx_data (fsm s (chat, u)))
               \<lparr>data_description := Some (if t = ''-'' then None else Some t)\<rparr>\<rparr>)\<rparr>)"
  by (auto simp: handler_defs get_category_def Let_def ctx_data_update)

lemma get_category_missing:
  "get_category cid d = Inr None" if "\<forall>c \<in> set (categories d). Some (cat_id c) \<noteq> cid"
    and "case cid of None \<Rightarrow> True | Some c \<Rightarrow> int64 c"
  using that by (auto simp: get_category_def find_None_iff split: option.splits)

lemma get_category_present:
  "\<exists>c \<in> set (categories d). Some (cat_id c) = cid \<and> get_category cid d = Inr (Some c)"
  if "\<exists>c \<in> set (categories d). Some (cat_id c) = cid"
    and "case cid of None \<Rightarrow> True | Some c \<Rightarrow> int64 c"
proof -
  from that obtain i where cid: "cid = Some i" and i: "int64 i" "\<exists>c \<in> set (categories d). cat_id c = i"
    by (cases cid) auto
  then obtain c where "find (\<lambda>r. cat_id r = i) (categories d) = Some c"
    by (cases "find (\<lambda>r. cat_id r = i) (categories d)") (auto simp: find_None_iff)
  moreover from this have "c \<in> set (categories d)" "cat_id c = i"
    by (auto simp: find_Some_iff)
  ultimately show ?thesis
    using cid i by (auto simp: get_category_def)
qed

subsection \<open>Ordering\<close>











lemma joined_key:
  "date_key (row_date (joined e c)) = date_key (exp_date e)" "row_id (joined e c) = exp_id e"
  by (simp_all add: joined_def)



section \<open>The claims about the flow\<close>

text \<open>
  Claim C1, as stated, fails: \<^verbatim>\<open>add_expense\<close> called with the amount \<open>-5\<close> succeeds and
  creates a row with that amount.
\<close>

theorem add_expense_nonpositive_counterexample:
  "le_zero (Fin (- 5))
   \<and> add_expense example_numeric False ''2024-01-01 10:00:00'' 7 (Some (Fin (- 5))) (Some 1)
       None None example_db
     = Inr (1, example_db\<lparr>expenses :=
          [\<lparr>exp_id = 1, exp_user_id = 7, exp_amount = Fin (- 5), exp_category_id = 1,
            exp_description = None, exp_date = TextDate ''2024-01-01 10:00:00''\<rparr>],
          expenses_seq := 1\<rparr>)"
  by (simp add: db_defs example_defs)

text \<open>
  Claim C1, amended. \<^verbatim>\<open>add_expense\<close> does not look at the sign of the amount: for a user id
  and a category id within 64 bits and every amount that is not NaN, also one that is zero
  or negative, and without a store fault, it appends exactly one row with that amount and
  returns its id. The check is made by \<^verbatim>\<open>process_amount_input\<close>: from a store whose rows all
  have a positive amount and from an empty conversation store, every expense row has a
  positive amount after any sequence of events.
\<close>

theorem add_expense_unchecked_flow_positive:
  "(int64 user_id \<and> int64 c \<and> a \<noteq> NaN \<longrightarrow>
      add_expense numeric False now user_id (Some a) (Some c) description date d
        = Inr (next_rowid d,
               d\<lparr>expenses := expenses d @
                    [\<lparr>exp_id = next_rowid d, exp_user_id = user_id, exp_amount = a,
                      exp_category_id = c, exp_description = description,
                      exp_date = store_date numeric (case date of None \<Rightarrow> now | Some t \<Rightarrow> t)\<rparr>],
                 expenses_seq := next_rowid d\<rparr>))
   \<and> ((\<forall>e \<in> set (expenses d). gt_zero (exp_amount e)) \<longrightarrow>
        (\<forall>e \<in> set (expenses (db (run numeric float evs (init_sys d)))). gt_zero (exp_amount e)))"
proof -
  have "amounts_checked (run numeric float evs (init_sys d))"
    if "\<forall>e \<in> set (expenses d). gt_zero (exp_amount e)"
    using that by (intro run_amounts_checked) (simp add: amounts_checked_def init_sys_def empty_data_def)
  moreover have "bind_real (Some a) = Some a" if "a \<noteq> NaN"
    using that by (cases a) simp_all
  ultimately show ?thesis
    by (auto simp: amounts_checked_def add_expense_def Let_def)
qed

theorem add_expense_unchecked_flow_positive_witness:
  "add_expense example_numeric False ''2024-01-01 10:00:00'' 7 (Some (Fin 0)) (Some 1) None None
       example_db
     = Inr (1, example_db\<lparr>expenses :=
          [\<lparr>exp_id = 1, exp_user_id = 7, exp_amount = Fin 0, exp_category_id = 1,
            exp_description = None, exp_date = TextDate ''2024-01-01 10:00:00''\<rparr>],
          expenses_seq := 1\<rparr>)
   \<and> expenses (db (run example_numeric example_float example_flow (init_sys example_db)))
       = [\<lparr>exp_id = 1, exp_user_id = 7, exp_amount = Fin 12.5, exp_category_id = 1,
            exp_description = None, exp_date = TextDate ''2024-01-01 10:00:00''\<rparr>]
   \<and> list_all (\<lambda>e. gt_zero (exp_amount e))
         (expenses (db (run example_numeric example_float example_flow (init_sys example_db))))"
proof -
  have e: "\<forall>e \<in> set (expenses example_db). gt_zero (exp_amount e)"
    by (simp add: example_db_def)
  have n: "next_rowid example_db = 1"
    by (simp add: next_rowid_def example_db_def)
  have i: "int64 7" "int64 1"
    by (simp_all add: int64_def)
  have t: "store_date example_numeric ''2024-01-01 10:00:00'' = TextDate ''2024-01-01 10:00:00''"
    by (simp add: store_date_def example_numeric_def)
  have r: "expenses (db (run example_numeric example_float example_flow (init_sys example_db)))
       = [\<lparr>exp_id = 1, exp_user_id = 7, exp_amount = Fin 12.5, exp_category_id = 1,
            exp_description = None, exp_date = TextDate ''2024-01-01 10:00:00''\<rparr>]"
    by (simp add: example_flow_def handler_defs example_defs db_defs)
  show ?thesis
    using add_expense_unchecked_flow_positive [of 7 1 "Fin 0" example_numeric
        "''2024-01-01 10:00:00''" None None example_db example_float example_flow] e n i t
    by (simp add: r list_all_iff) (simp add: example_db_def)
qed

text \<open>
  Claim C2. In every state that the handlers can reach from an empty conversation store, if
  the step of a user is \<open>None\<close> then a confirm press of that user creates no expense row and
  leaves the conversation state unchanged: the whole state stays as it is, and the handler
  ends with the exception of the rejected \<^verbatim>\<open>INSERT\<close> (of the binding, for a user id outside
  64 bits).
\<close>

theorem stale_confirm_rejected:
  assumes "ctx_state (fsm (run numeric float evs (init_sys d)) (chat, u)) = None"
  shows "dispatch numeric float
           \<lparr>ev_chat = chat, ev_user = u, ev_action = ConfirmExpense, ev_now = n, ev_fault = f\<rparr>
           (run numeric float evs (init_sys d))
         = (Raised (if f then OperationalError
                    else if int64 u then IntegrityError else OverflowError),
            [CallbackAnswer], run numeric float evs (init_sys d))"
proof -
  have "no_stale_data (run numeric float evs (init_sys d))"
    by (rule run_no_stale_data [OF init_no_stale_data])
  with assms have "ctx_data (fsm (run numeric float evs (init_sys d)) (chat, u)) = empty_data"
    by (simp add: no_stale_data_def)
  then show ?thesis
    by (simp add: dispatch_def confirm_expense_handler_def add_expense_def empty_data_def
        get_description_def)
qed

theorem stale_confirm_rejected_witness:
  "ctx_state (fsm (run example_numeric example_float example_flow (init_sys example_db)) (7, 7)) = None
   \<and> dispatch example_numeric example_float (press 7 ConfirmExpense)
        (run example_numeric example_float example_flow (init_sys example_db))
      = (Raised IntegrityError, [CallbackAnswer],
         run example_numeric example_float example_flow (init_sys example_db))"
proof -
  have h: "ctx_state (fsm (run example_numeric example_float example_flow (init_sys example_db)) (7, 7))
           = None"
    by (simp add: example_flow_def handler_defs example_defs db_defs)
  show ?thesis
    using h stale_confirm_rejected [OF h, of "''2024-01-01 10:00:00''" False]
    by (simp add: press_def int64_def)
qed

text \<open>
  Claim C3. When the write of the ledger store fails during the confirm step, the state of
  the user stays \<^verbatim>\<open>confirming_expense\<close> with its pending category, amount and description:
  the exception ends the handler before \<^verbatim>\<open>state.clear()\<close>, and nothing is changed.
\<close>

theorem confirm_write_failure_keeps_state:
  assumes "ctx_state (fsm s (chat, u)) = Some confirming_expense"
    and "add_expense numeric f n u (data_amount (ctx_data (fsm s (chat, u))))
           (selected_category_id (ctx_data (fsm s (chat, u))))
           (get_description (ctx_data (fsm s (chat, u)))) None (db s) = Inl e"
  shows "dispatch numeric float
           \<lparr>ev_chat = chat, ev_user = u, ev_action = ConfirmExpense, ev_now = n, ev_fault = f\<rparr> s
           = (Raised e, [CallbackAnswer], s)"
  using assms by (simp add: dispatch_def confirm_expense_handler_def)

theorem confirm_write_failure_keeps_state_witness:
  "dispatch example_numeric example_float
     \<lparr>ev_chat = 7, ev_user = 7, ev_action = ConfirmExpense, ev_now = ''2024-01-01 10:00:00'',
      ev_fault = True\<rparr>
     (example_sys (Some confirming_expense)
        \<lparr>selected_category_id = Some 1, data_amount = Some (Fin 12.5), data_description = Some None\<rparr>)
   = (Raised OperationalError, [CallbackAnswer],
      example_sys (Some confirming_expense)
        \<lparr>selected_category_id = Some 1, data_amount = Some (Fin 12.5), data_description = Some None\<rparr>)"
proof -
  let ?s = "example_sys (Some confirming_expense)
        \<lparr>selected_category_id = Some 1, data_amount = Some (Fin 12.5), data_description = Some None\<rparr>"
  have st: "ctx_state (fsm ?s (7, 7)) = Some confirming_expense"
    by (simp add: example_sys_def)
  have w: "add_expense example_numeric True ''2024-01-01 10:00:00'' 7
           (data_amount (ctx_data (fsm ?s (7, 7))))
           (selected_category_id (ctx_data (fsm ?s (7, 7))))
           (get_description (ctx_data (fsm ?s (7, 7)))) None (db ?s) = Inl OperationalError"
    by (simp add: add_expense_def)
  show ?thesis
    using confirm_write_failure_keeps_state [OF st w, of example_float] by simp
qed

text \<open>
  Claim C4 at the cancel button of the category keyboard: after \<^verbatim>\<open>/add\<close> and that cancel,
  the state of the user is still \<^verbatim>\<open>waiting_for_category\<close>; the handler
  \<^verbatim>\<open>cancel_add_expense_operation\<close> does not clear it.
\<close>

theorem cancel_add_expense_keeps_state:
  "fsm (run example_numeric example_float [press 7 AddCommand, press 7 CancelAddExpense]
          (init_sys example_db)) (7, 7)
     = \<lparr>ctx_state = Some waiting_for_category, ctx_data = empty_data\<rparr>"
  by (simp add: handler_defs example_defs)

text \<open>
  Claim C5 at a second \<^verbatim>\<open>/add\<close>: after \<^verbatim>\<open>/add\<close>, category 1, the amount 12.50, no
  description and \<^verbatim>\<open>/add\<close> again, the new flow still holds the category, the amount and the
  description of the discarded one; and when the user then selects category 2 and presses
  the confirm button of the discarded flow, one expense is committed with the old amount
  and the new category.
\<close>

theorem add_command_merges_flows:
  "fsm (run example_numeric example_float
         [press 7 AddCommand, press 7 (CategorySelected 1), press 7 (FreeText (Some ''12.50'')),
          press 7 (FreeText (Some ''-'')), press 7 AddCommand] (init_sys example_db)) (7, 7)
     = \<lparr>ctx_state = Some waiting_for_category,
        ctx_data = \<lparr>selected_category_id = Some 1, data_amount = Some (Fin 12.5),
                    data_description = Some None\<rparr>\<rparr>
   \<and> expenses (db (run example_numeric example_float
         [press 7 AddCommand, press 7 (CategorySelected 1), press 7 (FreeText (Some ''12.50'')),
          press 7 (FreeText (Some ''-'')), press 7 AddCommand, press 7 (CategorySelected 2),
          press 7 ConfirmExpense] (init_sys example_db)))
     = [\<lparr>exp_id = 1, exp_user_id = 7, exp_amount = Fin 12.5, exp_category_id = 2,
         exp_description = None, exp_date = TextDate ''2024-01-01 10:00:00''\<rparr>]"
  by (simp add: handler_defs example_defs db_defs)

text \<open>
  Claim C6 at a text that is not a number: in state \<^verbatim>\<open>waiting_for_amount\<close> the text
  \<^verbatim>\<open>nan\<close>, which \<^verbatim>\<open>float\<close> reads as NaN, gets no validation error; it is stored as the
  amount and the state becomes \<^verbatim>\<open>waiting_for_description\<close>.
\<close>

theorem nan_amount_accepted:
  "dispatch example_numeric example_float (press 7 (FreeText (Some ''nan'')))
      (example_sys (Some waiting_for_amount)
         \<lparr>selected_category_id = Some 1, data_amount = None, data_description = None\<rparr>)
     = (Completed, [DescriptionPrompt],
        example_sys (Some waiting_for_description)
          \<lparr>selected_category_id = Some 1, data_amount = Some NaN, data_description = None\<rparr>)"
  by (simp add: handler_defs example_defs example_sys_def)

text \<open>
  Claim C7. In state \<^verbatim>\<open>waiting_for_description\<close>, with a pending category id within 64
  bits, for every text: if no category has the pending id, the handler reports the error
  and the flow is reset to \<open>None\<close> with empty data; if one has, the state becomes
  \<^verbatim>\<open>confirming_expense\<close> and the stored description is absent when the text is \<^verbatim>\<open>-\<close> and
  the text itself otherwise.
\<close>

theorem process_description_input_transitions:
  assumes "ctx_state (fsm s (chat, u)) = Some waiting_for_description"
    and "case selected_category_id (ctx_data (fsm s (chat, u))) of None \<Rightarrow> True | Some c \<Rightarrow> int64 c"
  shows "((\<forall>c \<in> set (categories (db s)).
            Some (cat_id c) \<noteq> selected_category_id (ctx_data (fsm s (chat, u)))) \<longrightarrow>
          dispatch numeric float
            \<lparr>ev_chat = chat, ev_user = u, ev_action = FreeText (Some t), ev_now = n, ev_fault = f\<rparr> s
            = (Completed, [CategoryNotFound],
               s\<lparr>fsm := (fsm s)((chat, u) := \<lparr>ctx_state = None, ctx_data = empty_data\<rparr>)\<rparr>))
       \<and> ((\<exists>c \<in> set (categories (db s)).
            Some (cat_id c) = selected_category_id (ctx_data (fsm s (chat, u)))) \<longrightarrow>
          after (dispatch numeric float
            \<lparr>ev_chat = chat, ev_user = u, ev_action = FreeText (Some t), ev_now = n, ev_fault = f\<rparr> s)
            = s\<lparr>fsm := (fsm s)((chat, u) := \<lparr>ctx_state = Some confirming_expense,
                 ctx_data = (ctx_data (fsm s (chat, u)))
                   \<lparr>data_description := Some (if t = ''-'' then None else Some t)\<rparr>\<rparr>)\<rparr>)"
proof (intro conjI impI)
  assume "\<forall>c \<in> set (categories (db s)).
            Some (cat_id c) \<noteq> selected_category_id (ctx_data (fsm s (chat, u)))"
  then have "get_category (selected_category_id (ctx_data (fsm s (chat, u)))) (db s) = Inr None"
    using assms(2) by (rule get_category_missing)
  with assms(1) show "dispatch numeric float
            \<lparr>ev_chat = chat, ev_user = u, ev_action = FreeText (Some t), ev_now = n, ev_fault = f\<rparr> s
            = (Completed, [CategoryNotFound],
               s\<lparr>fsm := (fsm s)((chat, u) := \<lparr>ctx_state = None, ctx_data = empty_data\<rparr>)\<rparr>)"
    by (simp add: handler_defs Let_def)
next
  assume "\<exists>c \<in> set (categories (db s)).
            Some (cat_id c) = selected_category_id (ctx_data (fsm s (chat, u)))"
  then obtain c where
    "get_category (selected_category_id (ctx_data (fsm s (chat, u)))) (db s) = Inr (Some c)"
    using get_category_present [OF _ assms(2)] by blast
  with assms(1) show "after (dispatch numeric float
            \<lparr>ev_chat = chat, ev_user = u, ev_action = FreeText (Some t), ev_now = n, ev_fault = f\<rparr> s)
            = s\<lparr>fsm := (fsm s)((chat, u) := \<lparr>ctx_state = Some confirming_expense,
                 ctx_data = (ctx_data (fsm s (chat, u)))
                   \<lparr>data_description := Some (if t = ''-'' then None else Some t)\<rparr>\<rparr>)\<rparr>"
    by (auto simp: handler_defs Let_def split: option.splits)
qed

theorem process_description_input_transitions_witness:
  "after (dispatch example_numeric example_float (press 7 (FreeText (Some ''-'')))
      (example_sys (Some waiting_for_description)
         \<lparr>selected_category_id = Some 1, data_amount = Some (Fin 12.5), data_description = None\<rparr>))
     = example_sys (Some confirming_expense)
         \<lparr>selected_category_id = Some 1, data_amount = Some (Fin 12.5), data_description = Some None\<rparr>
   \<and> dispatch example_numeric example_float (press 7 (FreeText (Some ''lunch'')))
      (example_sys (Some waiting_for_description)
         \<lparr>selected_category_id = Some 99, data_amount = Some (Fin 12.5), data_description = None\<rparr>)
     = (Completed, [CategoryNotFound], example_sys None empty_data)"
proof -
  let ?s = "example_sys (Some waiting_for_description)
         \<lparr>selected_category_id = Some 1, data_amount = Some (Fin 12.5), data_description = None\<rparr>"
  let ?s' = "example_sys (Some waiting_for_description)
         \<lparr>selected_category_id = Some 99, data_amount = Some (Fin 12.5), data_description = None\<rparr>"
  have st: "ctx_state (fsm ?s (7, 7)) = Some waiting_for_description"
    and st': "ctx_state (fsm ?s' (7, 7)) = Some waiting_for_description"
    by (simp_all add: example_sys_def)
  have r: "case selected_category_id (ctx_data (fsm ?s (7, 7))) of None \<Rightarrow> True | Some c \<Rightarrow> int64 c"
    and r': "case selected_category_id (ctx_data (fsm ?s' (7, 7))) of None \<Rightarrow> True | Some c \<Rightarrow> int64 c"
    by (simp_all add: example_sys_def int64_def)
  have c: "\<exists>c \<in> set (categories (db ?s)).
            Some (cat_id c) = selected_category_id (ctx_data (fsm ?s (7, 7)))"
    and c': "\<forall>c \<in> set (categories (db ?s')).
            Some (cat_id c) \<noteq> selected_category_id (ctx_data (fsm ?s' (7, 7)))"
    by (simp_all add: example_db_def example_sys_def)
  show ?thesis
    using process_description_input_transitions [OF st r, of example_numeric example_float "''-''"
        "''2024-01-01 10:00:00''" False]
      process_description_input_transitions [OF st' r', of example_numeric example_float "''lunch''"
        "''2024-01-01 10:00:00''" False] c c'
    by (simp add: press_def) (simp add: example_sys_def)
qed

text \<open>
  Claim C10. A category selection stores the id and moves to \<^verbatim>\<open>waiting_for_amount\<close> in
  the same way whether or not a category with that id exists. When none exists (the id
  being within 64 bits), the amount step still succeeds, and only the lookup of the
  description step reports the missing category and resets the flow.
\<close>

theorem category_checked_only_at_description:
  "let s1 = s\<lparr>fsm := (fsm s)((chat, u) := \<lparr>ctx_state = Some waiting_for_amount,
               ctx_data = (ctx_data (fsm s (chat, u)))\<lparr>selected_category_id := Some cid\<rparr>\<rparr>)\<rparr>;
       s2 = s\<lparr>fsm := (fsm s)((chat, u) := \<lparr>ctx_state = Some waiting_for_description,
               ctx_data = (ctx_data (fsm s (chat, u)))\<lparr>selected_category_id := Some cid,
                                                        data_amount := Some a\<rparr>\<rparr>)\<rparr>;
       s3 = s\<lparr>fsm := (fsm s)((chat, u) := \<lparr>ctx_state = None, ctx_data = empty_data\<rparr>)\<rparr>
   in dispatch numeric float
        \<lparr>ev_chat = chat, ev_user = u, ev_action = CategorySelected cid, ev_now = n, ev_fault = f\<rparr> s
        = (Completed, [CallbackAnswer, AmountPrompt], s1)
    \<and> (int64 cid \<and> (\<forall>c \<in> set (categories (db s)). cat_id c \<noteq> cid)
          \<and> float t = Some a \<and> gt_zero a \<longrightarrow>
         dispatch numeric float
           \<lparr>ev_chat = chat, ev_user = u, ev_action = FreeText (Some t), ev_now = n', ev_fault = f'\<rparr> s1
           = (Completed, [DescriptionPrompt], s2)
       \<and> dispatch numeric float
           \<lparr>ev_chat = chat, ev_user = u, ev_action = FreeText (Some t'), ev_now = n'', ev_fault = f''\<rparr> s2
           = (Completed, [CategoryNotFound], s3))"
proof -
  have "get_category (Some cid) (db s) = Inr None"
    if "int64 cid" "\<forall>c \<in> set (categories (db s)). cat_id c \<noteq> cid"
    using that by (intro get_category_missing) auto
  then show ?thesis
    by (auto simp: handler_defs Let_def dest: gt_zero_not_le_zero)
qed

theorem category_checked_only_at_description_witness:
  "dispatch example_numeric example_float (press 7 (CategorySelected 99))
       (example_sys (Some waiting_for_category) empty_data)
     = (Completed, [CallbackAnswer, AmountPrompt],
        example_sys (Some waiting_for_amount) (empty_data\<lparr>selected_category_id := Some 99\<rparr>))
   \<and> dispatch example_numeric example_float (press 7 (FreeText (Some ''12.50'')))
        (example_sys (Some waiting_for_amount) (empty_data\<lparr>selected_category_id := Some 99\<rparr>))
     = (Completed, [DescriptionPrompt],
        example_sys (Some waiting_for_description)
          (empty_data\<lparr>selected_category_id := Some 99, data_amount := Some (Fin 12.5)\<rparr>))
   \<and> dispatch example_numeric example_float (press 7 (FreeText (Some ''lunch'')))
        (example_sys (Some waiting_for_description)
          (empty_data\<lparr>selected_category_id := Some 99, data_amount := Some (Fin 12.5)\<rparr>))
     = (Completed, [CategoryNotFound], example_sys None empty_data)"
proof -
  let ?s = "example_sys (Some waiting_for_category) empty_data"
  have g: "int64 99" "\<forall>c \<in> set (categories (db ?s)). cat_id c \<noteq> 99"
    by (simp_all add: example_db_def example_sys_def int64_def)
  have fl: "example_float ''12.50'' = Some (Fin 12.5)"
    by (simp add: example_float_def)
  have p: "gt_zero (Fin 12.5)"
    by simp
  show ?thesis
    using category_checked_only_at_description [where s = ?s and chat = 7 and u = 7 and cid = 99
        and numeric = example_numeric
        and float = example_float and t = "''12.50''" and a = "Fin 12.5" and t' = "''lunch''"
        and n = "''2024-01-01 10:00:00''" and n' = "''2024-01-01 10:00:00''"
        and n'' = "''2024-01-01 10:00:00''" and f = False and f' = False and f'' = False] g fl p
    by (simp add: Let_def press_def example_sys_def)
qed

section \<open>The claim about the listing\<close>



end
